theory Spec2Isabelle
  imports Complex_Main "HOL-Library.AList" "HOL-Library.Char_ord" "HOL-Library.List_Lexorder"
begin

section \<open>Conventions of the embedding\<close>

text \<open>
  The simulation of \<^verbatim>\<open>self_replicating_factory_sim.py\<close> is embedded function by function.
  Python floats are read as real numbers (no rounding, no infinities but where the source
  writes one), Python ints as \<open>int\<close> or \<open>nat\<close>. A member of the \<^verbatim>\<open>ResourceType\<close> enum is
  identified with its \<^verbatim>\<open>.value\<close> string. A \<^verbatim>\<open>dict\<close> is an association list in insertion
  order, a \<^verbatim>\<open>set\<close> a HOL set. Objects are values: every mutation returns the updated
  value. The module \<^verbatim>\<open>random\<close> is a sequence of draws with a position.
\<close>

type_synonym ResourceType = string

datatype error =
    CircularDependencyError "ResourceType set" ResourceType
  | KeyError string
  | ZeroDivisionError
  | TypeError

text \<open>\<^verbatim>\<open>d.get(k, 0)\<close> on a dictionary of floats.\<close>

definition get0 :: "('k \<times> real) list \<Rightarrow> 'k \<Rightarrow> real" where
  "get0 d k = (case map_of d k of None \<Rightarrow> 0 | Some v \<Rightarrow> v)"

text \<open>Truthiness of an \<^verbatim>\<open>Optional[str]\<close>, of an \<^verbatim>\<open>Optional[float]\<close> and of an \<^verbatim>\<open>Optional[int]\<close>.\<close>

definition truthy_str :: "string option \<Rightarrow> bool" where
  "truthy_str v = (case v of None \<Rightarrow> False | Some s \<Rightarrow> s \<noteq> [])"

definition truthy_num :: "'a::zero option \<Rightarrow> bool" where
  "truthy_num v = (case v of None \<Rightarrow> False | Some x \<Rightarrow> x \<noteq> 0)"

text \<open>\<^verbatim>\<open>int(x)\<close> truncates towards zero; \<^verbatim>\<open>x % m\<close> on floats takes the sign of \<open>m\<close>.\<close>

definition py_int :: "real \<Rightarrow> int" where
  "py_int x = (if 0 \<le> x then \<lfloor>x\<rfloor> else \<lceil>x\<rceil>)"

definition py_fmod :: "real \<Rightarrow> real \<Rightarrow> real" where
  "py_fmod x m = x - m * of_int \<lfloor>x / m\<rfloor>"

subsection \<open>Formatted identifiers\<close>

definition digit_char :: "nat \<Rightarrow> char" where
  "digit_char d = ''0123456789'' ! (d mod 10)"

fun decimal :: "nat \<Rightarrow> string" where
  "decimal n = (if n < 10 then [digit_char n] else decimal (n div 10) @ [digit_char (n mod 10)])"

declare decimal.simps [simp del]

text \<open>\<^verbatim>\<open>f"{n:0wd}"\<close> for a non-negative \<open>n\<close>: zeros on the left up to width \<open>w\<close>.\<close>

definition zero_pad :: "nat \<Rightarrow> nat \<Rightarrow> string" where
  "zero_pad w n = replicate (w - length (decimal n)) (CHR ''0'') @ decimal n"

subsection \<open>Priority queues\<close>

text \<open>
  \<^verbatim>\<open>heapq\<close> keeps tuples \<^verbatim>\<open>(priority, id, payload)\<close>. The array layout of the heap is not
  modelled: the queue is the list of its entries in the order \<^verbatim>\<open>heappop\<close> returns them.
  Python would compare two payloads (and raise) only when priority and id are both
  equal; such entries keep their insertion order here.
\<close>

type_synonym 'a heap = "(int \<times> string \<times> 'a) list"

definition key_less :: "int \<times> string \<times> 'a \<Rightarrow> int \<times> string \<times> 'a \<Rightarrow> bool" where
  "key_less x y = (fst x < fst y \<or> (fst x = fst y \<and> fst (snd x) < fst (snd y)))"

fun heappush :: "'a heap \<Rightarrow> int \<times> string \<times> 'a \<Rightarrow> 'a heap" where
  "heappush [] x = [x]"
| "heappush (y # ys) x = (if key_less x y then x # y # ys else y # heappush ys x)"

section \<open>Configuration\<close>

text \<open>
  The validated configuration (\<^verbatim>\<open>validate_config(...).to_dict()\<close>) holds every key the
  simulation reads, so \<^verbatim>\<open>config.get(key, default)\<close> never takes its default.
\<close>

record Config =
  cfg_initial_solar_capacity_kw :: real
  cfg_solar_panel_efficiency :: real
  cfg_battery_efficiency :: real
  cfg_latitude :: real
  cfg_average_cloud_cover :: real
  cfg_ambient_temperature :: real
  cfg_factory_area_m2 :: real
  cfg_max_storage_volume_m3 :: real
  cfg_max_storage_weight_tons :: real
  cfg_agv_fleet_size :: nat
  cfg_enable_degradation :: bool
  cfg_enable_weather :: bool
  cfg_enable_maintenance :: bool
  cfg_enable_storage_limits :: bool
  cfg_enable_batch_processing :: bool


definition MAX_LOG_ENTRIES :: nat where
  "MAX_LOG_ENTRIES = 5000"

definition LOG_TRIM_SIZE :: nat where
  "LOG_TRIM_SIZE = 2500"

definition MAX_CONCURRENT_TRANSPORTS :: nat where
  "MAX_CONCURRENT_TRANSPORTS = 20"

section \<open>Energy system\<close>

record EnergySystem =
  solar_capacity_kw :: real
  panel_efficiency :: real
  battery_capacity_kwh :: real
  battery_charge_kwh :: real
  battery_cycles :: real
  panel_age_days :: real
  days_since_cleaning :: real
  latitude :: real
  average_cloud_cover :: real

definition EnergySystem_init :: "Config \<Rightarrow> EnergySystem" where
  "EnergySystem_init config =
     \<lparr> solar_capacity_kw = cfg_initial_solar_capacity_kw config,
       panel_efficiency = cfg_solar_panel_efficiency config,
       battery_capacity_kwh = 1000,
       battery_charge_kwh = 1000 * 0.5,
       battery_cycles = 0,
       panel_age_days = 0,
       days_since_cleaning = 0,
       latitude = cfg_latitude config,
       average_cloud_cover = cfg_average_cloud_cover config \<rparr>"

definition radians :: "real \<Rightarrow> real" where
  "radians x = x * pi / 180"

text \<open>
  \<open>gauss\<close> is the value \<^verbatim>\<open>random.gauss(1.0, 0.2)\<close> returns; it is drawn only when the
  weather is enabled.
\<close>

definition calculate_solar_generation :: "Config \<Rightarrow> EnergySystem \<Rightarrow> real \<Rightarrow> real \<Rightarrow> int \<Rightarrow> real" where
  "calculate_solar_generation config es gauss hour_of_day day_of_year =
     (if \<not> cfg_enable_weather config then solar_capacity_kw es * 8 / 24
      else
        let hour_angle = 15 * (hour_of_day - 12);
            declination = 23.45 * sin (radians (360 * (284 + of_int day_of_year) / 365));
            zenith_rad = arccos
              (sin (radians (latitude es)) * sin (radians declination) +
               cos (radians (latitude es)) * cos (radians declination) * cos (radians hour_angle));
            base_irradiance = (if zenith_rad > pi / 2 then 0 else 1000 * cos zenith_rad);
            weather_factor = max 0.1 (min 1.0 (1.0 - average_cloud_cover es * gauss));
            age_factor = 0.995 powr (panel_age_days es / 365);
            dust_factor = max 0.7 (1.0 - 0.01 * days_since_cleaning es);
            temp_factor = 1.0 - 0.004 * (cfg_ambient_temperature config - 25);
            actual_generation =
              solar_capacity_kw es * (base_irradiance / 1000) * weather_factor * age_factor *
              dust_factor * temp_factor
        in max 0 actual_generation)"

text \<open>\<^verbatim>\<open>update_battery\<close> returns the signed energy moved and the updated system.\<close>

definition update_battery :: "Config \<Rightarrow> EnergySystem \<Rightarrow> real \<Rightarrow> real \<Rightarrow> real \<times> EnergySystem" where
  "update_battery config es energy_delta_kwh duration_hours =
     (if energy_delta_kwh > 0 then
        let charge_rate = min energy_delta_kwh (battery_capacity_kwh es * 0.5);
            actual_charge = charge_rate * cfg_battery_efficiency config
        in (actual_charge,
            es\<lparr> battery_charge_kwh :=
                   min (battery_capacity_kwh es * 0.95) (battery_charge_kwh es + actual_charge),
                 battery_cycles := battery_cycles es + actual_charge / battery_capacity_kwh es \<rparr>)
      else
        let discharge_requested = \<bar>energy_delta_kwh\<bar>;
            max_discharge = battery_capacity_kwh es * 0.5;
            actual_discharge =
              min discharge_requested
                (min max_discharge (battery_charge_kwh es - battery_capacity_kwh es * 0.2))
        in (- actual_discharge,
            es\<lparr> battery_charge_kwh := battery_charge_kwh es - actual_discharge,
                 battery_cycles := battery_cycles es + actual_discharge / battery_capacity_kwh es \<rparr>))"

text \<open>A run of the battery: the sequence of \<^verbatim>\<open>update_battery\<close> calls of a simulation.\<close>

fun battery_run :: "Config \<Rightarrow> EnergySystem \<Rightarrow> (real \<times> real) list \<Rightarrow> EnergySystem" where
  "battery_run config es [] = es"
| "battery_run config es ((delta, duration) # calls) =
     battery_run config (snd (update_battery config es delta duration)) calls"

definition battery_in_bounds :: "EnergySystem \<Rightarrow> bool" where
  "battery_in_bounds es =
     (0.2 * battery_capacity_kwh es \<le> battery_charge_kwh es \<and>
      battery_charge_kwh es \<le> 0.95 * battery_capacity_kwh es)"

section \<open>Random draws\<close>

text \<open>
  The state of the module \<^verbatim>\<open>random\<close>: the values its calls return, in order, and the number
  of calls made so far.
\<close>

type_synonym rng = "(nat \<Rightarrow> real) \<times> nat"

definition draw :: "rng \<Rightarrow> real \<times> rng" where
  "draw g = (fst g (snd g), (fst g, Suc (snd g)))"

section \<open>Modules\<close>

record ModuleSpec =
  spec_module_type :: string
  max_throughput :: real
  power_consumption_idle :: real
  power_consumption_active :: real
  mtbf_hours :: real
  maintenance_interval :: real
  degradation_rate :: real
  physical_footprint :: real
  max_batch_size :: real
  min_batch_size :: real
  spec_setup_time :: real
  quality_base_rate :: real
  tolerance_capability :: "real option"
  cleanroom_capable :: "int option"

record ModuleState =
  module_id :: string
  module_type :: string
  spec :: "ModuleSpec option"
  operating_hours :: real
  cycles_completed :: int
  time_since_maintenance :: real
  current_efficiency :: real
  is_failed :: bool
  is_in_maintenance :: bool
  maintenance_end_time :: real
  current_task :: "string option"
  setup_end_time :: real
  last_product_type :: "ResourceType option"
  software_version :: "string option"
  contamination_level :: real
  temperature :: real

text \<open>The dataclass defaults of \<^verbatim>\<open>ModuleState(module_id, module_type, spec)\<close>.\<close>

definition ModuleState_init :: "string \<Rightarrow> string \<Rightarrow> ModuleSpec option \<Rightarrow> ModuleState" where
  "ModuleState_init mid mtype sp =
     \<lparr> module_id = mid, module_type = mtype, spec = sp, operating_hours = 0,
       cycles_completed = 0, time_since_maintenance = 0, current_efficiency = 1,
       is_failed = False, is_in_maintenance = False, maintenance_end_time = 0,
       current_task = None, setup_end_time = 0, last_product_type = None,
       software_version = None, contamination_level = 0, temperature = 22 \<rparr>"

definition update_condition ::
  "Config \<Rightarrow> rng \<Rightarrow> ModuleState \<Rightarrow> real \<Rightarrow> (error + string) \<times> ModuleState \<times> rng" where
  "update_condition config g m hours_operated =
     (if \<not> cfg_enable_degradation config then (Inr ''OPERATIONAL'', m, g)
      else
        let m1 = m\<lparr> operating_hours := operating_hours m + hours_operated,
                    time_since_maintenance := time_since_maintenance m + hours_operated \<rparr>
        in case spec m1 of
             None \<Rightarrow> (Inr ''OPERATIONAL'', m1, g)
           | Some sp \<Rightarrow>
               let degrade = (\<lambda>g'.
                     let degradation = degradation_rate sp * (hours_operated / 1000);
                         m2 = m1\<lparr> current_efficiency :=
                                    max 0.3 (current_efficiency m1 * (1 - degradation)) \<rparr>
                     in if cfg_enable_maintenance config \<and>
                           time_since_maintenance m2 \<ge> maintenance_interval sp
                        then (Inr ''MAINTENANCE_REQUIRED'', m2, g')
                        else (Inr ''OPERATIONAL'', m2, g'))
               in if \<not> is_failed m1 then
                    (if mtbf_hours sp = 0 then (Inl ZeroDivisionError, m1, g)
                     else
                       let failure_probability = hours_operated / mtbf_hours sp;
                           (u, g') = draw g
                       in if u < failure_probability
                          then (Inr ''FAILED'', m1\<lparr> is_failed := True \<rparr>, g')
                          else degrade g')
                  else degrade g)"

text \<open>\<^verbatim>\<open>float('inf')\<close> is the throughput of a module without a spec.\<close>

datatype pyfloat = Fin real | PosInf

definition get_effective_throughput :: "ModuleState \<Rightarrow> pyfloat" where
  "get_effective_throughput m =
     (if is_failed m \<or> is_in_maintenance m then Fin 0.0
      else case spec m of
             None \<Rightarrow> PosInf
           | Some sp \<Rightarrow>
               let base_throughput = max_throughput sp * current_efficiency m;
                   base_throughput1 =
                     (if \<bar>temperature m - 22\<bar> > 5
                      then base_throughput * (1.0 - 0.01 * \<bar>temperature m - 22\<bar>)
                      else base_throughput);
                   base_throughput2 =
                     (if truthy_str (software_version m) then base_throughput1 * 0.95
                      else base_throughput1)
               in Fin base_throughput2)"

definition get_power_consumption :: "ModuleState \<Rightarrow> real" where
  "get_power_consumption m =
     (case spec m of
        None \<Rightarrow> 0.0
      | Some sp \<Rightarrow>
          if is_failed m then 0.0
          else if is_in_maintenance m then power_consumption_idle sp * 0.5
          else if truthy_str (current_task m) then power_consumption_active sp
          else power_consumption_idle sp)"

section \<open>Thermal management\<close>

text \<open>
  \<^verbatim>\<open>ThermalManagementSystem\<close> keeps the ambient temperature it read from the
  configuration, a cooling capacity and the chiller's coefficient of performance; it reads
  the factory area from the configuration at every call.
\<close>

record ThermalManagementSystem =
  ambient_temp :: real
  total_heat_generation :: real
  cooling_capacity :: real
  chiller_efficiency :: real

definition ThermalManagementSystem_init :: "Config \<Rightarrow> ThermalManagementSystem" where
  "ThermalManagementSystem_init config =
     \<lparr> ambient_temp = cfg_ambient_temperature config, total_heat_generation = 0,
       cooling_capacity = 10000, chiller_efficiency = 3.5 \<rparr>"

definition calculate_module_heat :: "(string \<times> ModuleState) list \<Rightarrow> real" where
  "calculate_module_heat module_states =
     (\<Sum>(mid, st) \<leftarrow> module_states.
        (case spec st of None \<Rightarrow> 0 | Some sp \<Rightarrow> get_power_consumption st * 0.8))"

definition calculate_cooling_requirement :: "Config \<Rightarrow> ThermalManagementSystem \<Rightarrow> real \<Rightarrow> real" where
  "calculate_cooling_requirement config th heat_generation =
     (let building_area = cfg_factory_area_m2 config;
          solar_heat_gain = building_area * 0.1;
          total_heat = heat_generation + solar_heat_gain;
          target_temp = 22;
          temp_diff = ambient_temp th - target_temp;
          cop = max 1.5 (chiller_efficiency th - 0.05 * \<bar>temp_diff\<bar>)
      in total_heat / cop)"

definition check_thermal_constraints :: "Config \<Rightarrow> ThermalManagementSystem \<Rightarrow> real \<Rightarrow> bool" where
  "check_thermal_constraints config th heat_generation =
     (calculate_cooling_requirement config th heat_generation \<le> cooling_capacity th)"

section \<open>Storage\<close>

record StorageSystem =
  total_volume_m3 :: real
  total_weight_capacity_tons :: real
  current_inventory :: "(ResourceType \<times> real) list"
  storage_waste_inventory :: "(ResourceType \<times> real) list"
  enabled :: bool
  temperature_controlled :: bool
  contamination_controlled :: bool

text \<open>The class constant \<^verbatim>\<open>MATERIAL_PROPERTIES\<close>: density, storage temperature, sensitivity.\<close>

definition MATERIAL_PROPERTIES :: "(ResourceType \<times> real \<times> real \<times> real) list" where
  "MATERIAL_PROPERTIES =
     [(''silicon_ore'', 2.3, 25, 0.1),
      (''iron_ore'', 4.0, 25, 0.1),
      (''silicon_wafer'', 2.3, 22, 1.0),
      (''integrated_circuit'', 0.2, 22, 1.0),
      (''chemical_pump'', 5.0, 25, 0.3),
      (''lithium_compound'', 1.5, 20, 0.8),
      (''sulfuric_acid'', 1.8, 15, 0.5),
      (''organic_solvent'', 0.8, 10, 0.6)]"

definition get_material_properties :: "ResourceType \<Rightarrow> real \<times> real \<times> real" where
  "get_material_properties resource =
     (case map_of MATERIAL_PROPERTIES resource of None \<Rightarrow> (1.0, 25, 0.5) | Some p \<Rightarrow> p)"

definition can_store :: "StorageSystem \<Rightarrow> ResourceType \<Rightarrow> real \<Rightarrow> bool \<times> string" where
  "can_store st resource qty =
     (if \<not> enabled st then (True, ''OK'')
      else
        let density = fst (get_material_properties resource);
            req_temp = fst (snd (get_material_properties resource));
            volume_needed = qty / density;
            current_volume =
              (\<Sum>(r, q) \<leftarrow> current_inventory st. q / fst (get_material_properties r));
            current_weight = (\<Sum>(r, q) \<leftarrow> current_inventory st. q)
        in if current_volume + volume_needed > total_volume_m3 st then (False, ''VOLUME_EXCEEDED'')
           else if current_weight + qty > total_weight_capacity_tons st
             then (False, ''WEIGHT_EXCEEDED'')
           else if temperature_controlled st \<and>
                   list_ex (\<lambda>(r, q). \<bar>fst (snd (get_material_properties r)) - req_temp\<bar> > 10)
                     (current_inventory st)
             then (False, ''TEMPERATURE_INCOMPATIBLE'')
           else (True, ''OK''))"

definition add_resource :: "StorageSystem \<Rightarrow> ResourceType \<Rightarrow> real \<Rightarrow> bool \<times> StorageSystem" where
  "add_resource st resource qty =
     (if \<not> fst (can_store st resource qty) then (False, st)
      else (True,
            st\<lparr> current_inventory :=
                   AList.update resource (get0 (current_inventory st) resource + qty)
                     (current_inventory st) \<rparr>))"

section \<open>Waste stream\<close>

text \<open>
  \<^verbatim>\<open>waste_inventory\<close> is a \<^verbatim>\<open>defaultdict(float)\<close>: reading a missing key with \<^verbatim>\<open>[]\<close>
  inserts it with 0.
\<close>

record WasteStream =
  waste_inventory :: "(ResourceType \<times> real) list"
  recyclable_materials :: "(ResourceType \<times> real) list"

definition WasteStream_init :: WasteStream where
  "WasteStream_init =
     \<lparr> waste_inventory = [],
       recyclable_materials =
         [(''steel'', 0.95), (''aluminum_sheet'', 0.90), (''copper_wire'', 0.85),
          (''plastic'', 0.60), (''glass'', 0.80), (''silicon_wafer'', 0.70)] \<rparr>"

definition add_waste :: "WasteStream \<Rightarrow> ResourceType \<Rightarrow> real \<Rightarrow> WasteStream" where
  "add_waste ws waste_type qty =
     ws\<lparr> waste_inventory :=
          AList.update waste_type (get0 (waste_inventory ws) waste_type + qty) (waste_inventory ws) \<rparr>"

definition process_recycling :: "WasteStream \<Rightarrow> ResourceType \<Rightarrow> real \<Rightarrow> real \<times> WasteStream" where
  "process_recycling ws waste_type qty =
     (case map_of (recyclable_materials ws) waste_type of
        None \<Rightarrow> (0.0, ws)
      | Some recovery_rate \<Rightarrow>
          let available = min qty (get0 (waste_inventory ws) waste_type);
              recovered = available * recovery_rate
          in (recovered,
              ws\<lparr> waste_inventory :=
                    AList.update waste_type (get0 (waste_inventory ws) waste_type - available)
                      (waste_inventory ws) \<rparr>))"

definition get_total_waste :: "WasteStream \<Rightarrow> real" where
  "get_total_waste ws = (\<Sum>(r, q) \<leftarrow> waste_inventory ws. q)"

section \<open>Cleanroom environments\<close>

record CleanRoomEnvironment =
  env_cleanroom_class :: int
  particle_count :: real
  time_since_cleaning :: real

definition get_base_particles :: "int \<Rightarrow> real" where
  "get_base_particles c =
     (case map_of
        [(1, 35.2), (10, 352), (100, 3520), (1000, 35200), (10000, 352000), (100000, 3520000)] c
      of None \<Rightarrow> 3520000 | Some p \<Rightarrow> p)"

definition CleanRoomEnvironment_init :: "int \<Rightarrow> CleanRoomEnvironment" where
  "CleanRoomEnvironment_init c =
     \<lparr> env_cleanroom_class = c, particle_count = get_base_particles c, time_since_cleaning = 0 \<rparr>"

definition update_contamination :: "CleanRoomEnvironment \<Rightarrow> real \<Rightarrow> real \<Rightarrow> CleanRoomEnvironment" where
  "update_contamination cr activity_level time_hours =
     (let contamination_rate = activity_level * 100
      in cr\<lparr> particle_count :=
                (particle_count cr + contamination_rate * time_hours) * (1.001 powr time_hours),
              time_since_cleaning := time_since_cleaning cr + time_hours \<rparr>)"


section \<open>Software production\<close>

record SoftwarePackage =
  pkg_type :: ResourceType
  pkg_version :: string
  bug_rate :: real
  lines_of_code :: real
  compatible_modules :: "string list"

record SoftwareProductionSystem =
  software_library :: "(string \<times> SoftwarePackage) list"
  development_hours :: "(ResourceType \<times> real) list"
  bug_rates :: "(ResourceType \<times> real) list"
  version_counter :: "(ResourceType \<times> nat) list"

definition SoftwareProductionSystem_init :: SoftwareProductionSystem where
  "SoftwareProductionSystem_init =
     \<lparr> software_library = [], development_hours = [],
       bug_rates = [(''plc_program'', 0.05), (''robot_firmware'', 0.08), (''ai_model'', 0.15),
                    (''scada_system'', 0.10)],
       version_counter = [] \<rparr>"

definition get_compatible_modules :: "ResourceType \<Rightarrow> string list" where
  "get_compatible_modules software_type =
     (case map_of
        [(''plc_program'', [''mining'', ''refining'', ''chemical'', ''mechanical'']),
         (''robot_firmware'', [''cnc'', ''laser'', ''assembly'', ''testing'']),
         (''ai_model'', [''transport'', ''recycling'', ''software'']),
         (''scada_system'', [''cleanroom'', ''thermal'', ''power'', ''control''])] software_type
      of None \<Rightarrow> [] | Some ms \<Rightarrow> ms)"

definition version_string :: "nat \<Rightarrow> string" where
  "version_string n = ''v'' @ decimal n @ ''.0''"

definition develop_software ::
  "SoftwareProductionSystem \<Rightarrow> ResourceType \<Rightarrow> real \<Rightarrow> SoftwarePackage \<times> SoftwareProductionSystem" where
  "develop_software sw software_type dev_hours =
     (let hours = get0 (development_hours sw) software_type + dev_hours;
          n = (case map_of (version_counter sw) software_type of None \<Rightarrow> 0 | Some k \<Rightarrow> k) + 1;
          version = version_string n;
          base_bug_rate = (case map_of (bug_rates sw) software_type of None \<Rightarrow> 0.1 | Some b \<Rightarrow> b);
          experience_factor = max 0.5 (1.0 - hours / 1000);
          actual_bug_rate = base_bug_rate * experience_factor;
          bugs_after_testing = actual_bug_rate * 0.1;
          software_package =
            \<lparr> pkg_type = software_type, pkg_version = version, bug_rate = bugs_after_testing,
              lines_of_code = dev_hours * 50,
              compatible_modules = get_compatible_modules software_type \<rparr>
      in (software_package,
          sw\<lparr> development_hours := AList.update software_type hours (development_hours sw),
               version_counter := AList.update software_type n (version_counter sw),
               software_library :=
                 AList.update (software_type @ ''_'' @ version) software_package
                   (software_library sw) \<rparr>))"


text \<open>
  \<^verbatim>\<open>recipe.software_required not in self.software_system.software_library\<close> looks an enum
  member up among keys that are strings (\<^verbatim>\<open>f"{software_type.value}_{version}"\<close>). A member
  of a plain \<^verbatim>\<open>Enum\<close> is equal to no string, so the member is never found.
\<close>

definition software_in_library :: "SoftwareProductionSystem \<Rightarrow> ResourceType \<Rightarrow> bool" where
  "software_in_library sw software_type = False"

section \<open>Transport system\<close>

record TransportJob =
  job_id :: string
  from_module :: string
  to_module :: string
  resource_type :: ResourceType
  job_quantity :: real
  job_priority :: int
  distance :: real
  assigned_vehicle :: "string option"
  job_start_time :: "real option"
  job_completion_time :: "real option"
  job_energy_consumed :: real

record AGV =
  agv_status :: string
  battery_level :: real
  current_load :: real
  max_load :: real
  speed_mps :: real
  location :: string
  maintenance_hours :: real

record TransportSystem =
  transport_queue :: "TransportJob heap"
  active_transports :: "(string \<times> TransportJob) list"
  completed_transports :: "TransportJob list"
  agv_fleet :: "(string \<times> AGV) list"
  conveyor_capacity :: real
  conveyor_speed :: real
  conveyor_utilization :: real
  module_locations :: "(string \<times> real \<times> real) list"

text \<open>
  \<^verbatim>\<open>_generate_layout\<close>: fourteen module kinds on a grid of width
  \<^verbatim>\<open>ceil(sqrt(14))\<close>, that is 4, with 50 m spacing.
\<close>

definition generate_layout :: "(string \<times> real \<times> real) list" where
  "generate_layout =
     map (\<lambda>(i, m). (m, (real ((i mod 4) * 50), real ((i div 4) * 50))))
       (zip [0 ..< 14]
          [''mining'', ''refining'', ''chemical'', ''electronics'', ''mechanical'', ''cnc'',
           ''laser'', ''cleanroom'', ''assembly'', ''software'', ''transport'', ''recycling'',
           ''testing'', ''thermal''])"

definition AGV_init :: AGV where
  "AGV_init =
     \<lparr> agv_status = ''idle'', battery_level = 1.0, current_load = 0, max_load = 2000,
       speed_mps = 1.0, location = ''depot'', maintenance_hours = 0 \<rparr>"

definition TransportSystem_init :: "Config \<Rightarrow> TransportSystem" where
  "TransportSystem_init config =
     \<lparr> transport_queue = [], active_transports = [], completed_transports = [],
       agv_fleet = map (\<lambda>i. (''agv_'' @ zero_pad 3 i, AGV_init)) [0 ..< cfg_agv_fleet_size config],
       conveyor_capacity = 1000, conveyor_speed = 2.0, conveyor_utilization = 0.0,
       module_locations = generate_layout \<rparr>"

definition calculate_distance :: "TransportSystem \<Rightarrow> string \<Rightarrow> string \<Rightarrow> real" where
  "calculate_distance ts from_m to_m =
     (case (map_of (module_locations ts) from_m, map_of (module_locations ts) to_m) of
        (Some (x1, y1), Some (x2, y2)) \<Rightarrow> \<bar>x2 - x1\<bar> + \<bar>y2 - y1\<bar>
      | _ \<Rightarrow> 100)"

definition schedule_transport ::
  "TransportSystem \<Rightarrow> string \<Rightarrow> string \<Rightarrow> ResourceType \<Rightarrow> real \<Rightarrow> int \<Rightarrow> TransportJob \<times> TransportSystem" where
  "schedule_transport ts from_m to_m resource qty prio =
     (let jid = ''transport_'' @ zero_pad 6 (length (transport_queue ts));
          job = \<lparr> job_id = jid, from_module = from_m, to_module = to_m, resource_type = resource,
                  job_quantity = qty, job_priority = prio,
                  distance = calculate_distance ts from_m to_m, assigned_vehicle = None,
                  job_start_time = None, job_completion_time = None, job_energy_consumed = 0.0 \<rparr>
      in (job, ts\<lparr> transport_queue := heappush (transport_queue ts) (prio, jid, job) \<rparr>))"

definition find_available_agv :: "TransportSystem \<Rightarrow> real \<Rightarrow> string option" where
  "find_available_agv ts load_weight =
     map_option fst
       (find (\<lambda>(agv_id, agv). agv_status agv = ''idle'' \<and> battery_level agv > 0.2 \<and>
                               max_load agv \<ge> load_weight)
          (agv_fleet ts))"

text \<open>
  One iteration of the loop of \<^verbatim>\<open>process_transport_queue\<close>, after the pop: \<open>ts\<close> is the
  system without the popped entry. The result is \<open>True\<close> when the job was started (the
  loop goes on with \<^verbatim>\<open>jobs_started + 1\<close>), \<open>False\<close> when no vehicle was found (the entry is
  pushed back and the loop ends).
\<close>

definition dispatch_job ::
  "real \<Rightarrow> TransportSystem \<Rightarrow> int \<times> string \<times> TransportJob \<Rightarrow> error + bool \<times> TransportSystem" where
  "dispatch_job current_time ts entry =
     (let prio = fst entry; jid = fst (snd entry); job = snd (snd entry)
      in if job_quantity job < 100 \<and> conveyor_utilization ts < 0.8 then
           let travel_time = distance job / conveyor_speed ts / 3600;
               job1 = job\<lparr> job_completion_time := Some (current_time + travel_time),
                            job_energy_consumed := distance job * 0.5 \<rparr>
           in Inr (True,
                   ts\<lparr> conveyor_utilization :=
                          conveyor_utilization ts + job_quantity job / conveyor_capacity ts,
                        active_transports := AList.update jid job1 (active_transports ts) \<rparr>)
         else
           (case find_available_agv ts (job_quantity job) of
              None \<Rightarrow> Inr (False, ts\<lparr> transport_queue := heappush (transport_queue ts) entry \<rparr>)
            | Some agv_id \<Rightarrow>
                if agv_id = [] then
                  Inr (False, ts\<lparr> transport_queue := heappush (transport_queue ts) entry \<rparr>)
                else
                  (case map_of (agv_fleet ts) agv_id of
                     None \<Rightarrow> Inl (KeyError agv_id)
                   | Some agv \<Rightarrow>
                       let load_time = job_quantity job / 1000 * 0.1;
                           travel_time = distance job / speed_mps agv / 3600;
                           unload_time = load_time;
                           total_time = load_time + travel_time + unload_time;
                           agv1 = agv\<lparr> agv_status := ''transporting'',
                                        current_load := job_quantity job,
                                        battery_level := battery_level agv - distance job * 0.001 \<rparr>;
                           job1 = job\<lparr> assigned_vehicle := Some agv_id,
                                        job_start_time := Some current_time,
                                        job_completion_time := Some (current_time + total_time),
                                        job_energy_consumed := distance job * 2.0 \<rparr>
                       in Inr (True,
                               ts\<lparr> agv_fleet := AList.update agv_id agv1 (agv_fleet ts),
                                    active_transports :=
                                      AList.update jid job1 (active_transports ts) \<rparr>))))"

lemma dispatch_job_started_queue:
  "dispatch_job current_time ts entry = Inr (True, ts') \<Longrightarrow> transport_queue ts' = transport_queue ts"
  by (auto simp: dispatch_job_def Let_def split: if_splits option.splits)

text \<open>
  The loop \<^verbatim>\<open>while self.transport_queue and jobs_started < max_starts\<close> with
  \<^verbatim>\<open>max_starts = 5\<close>. The result carries the final value of \<^verbatim>\<open>jobs_started\<close>.
\<close>

function transport_loop :: "real \<Rightarrow> nat \<Rightarrow> TransportSystem \<Rightarrow> error + TransportSystem \<times> nat" where
  "transport_loop current_time jobs_started ts =
     (case transport_queue ts of
        [] \<Rightarrow> Inr (ts, jobs_started)
      | entry # queue' \<Rightarrow>
          if \<not> jobs_started < 5 then Inr (ts, jobs_started)
          else
            (case dispatch_job current_time (ts\<lparr> transport_queue := queue' \<rparr>) entry of
               Inl e \<Rightarrow> Inl e
             | Inr (started, ts') \<Rightarrow>
                 if started then transport_loop current_time (jobs_started + 1) ts'
                 else Inr (ts', jobs_started)))"
  by pat_completeness auto
termination
  by (relation "measure (\<lambda>(t, n, ts). length (transport_queue ts))")
     (auto dest: dispatch_job_started_queue)

declare transport_loop.simps [simp del]

definition process_transport_queue :: "TransportSystem \<Rightarrow> real \<Rightarrow> error + TransportSystem \<times> nat" where
  "process_transport_queue ts current_time = transport_loop current_time 0 ts"

text \<open>
  \<^verbatim>\<open>update_active_transports\<close>: one pass over the active jobs, then the completed ones are
  deleted from the dictionary.
\<close>

definition release_vehicle :: "TransportSystem \<Rightarrow> TransportJob \<Rightarrow> string \<Rightarrow> error + TransportSystem" where
  "release_vehicle ts job vehicle =
     (case map_of (agv_fleet ts) vehicle of
        None \<Rightarrow> Inl (KeyError vehicle)
      | Some agv \<Rightarrow>
          (case (job_completion_time job, job_start_time job) of
             (Some ct, Some st) \<Rightarrow>
               Inr (ts\<lparr> agv_fleet :=
                          AList.update vehicle
                            (agv\<lparr> agv_status := ''idle'', current_load := 0,
                                  location := to_module job,
                                  maintenance_hours := maintenance_hours agv + (ct - st) \<rparr>)
                            (agv_fleet ts) \<rparr>)
           | _ \<Rightarrow> Inl TypeError))"

definition finish_job :: "real \<Rightarrow> TransportSystem \<Rightarrow> TransportJob \<Rightarrow> error + TransportSystem" where
  "finish_job current_time ts job =
     (let released =
            (case assigned_vehicle job of
               None \<Rightarrow> Inr ts
             | Some vehicle \<Rightarrow> if vehicle = [] then Inr ts else release_vehicle ts job vehicle)
      in case released of
           Inl e \<Rightarrow> Inl e
         | Inr ts1 \<Rightarrow>
             Inr (ts1\<lparr> completed_transports := completed_transports ts1 @ [job],
                       conveyor_utilization :=
                         (if job_quantity job < 100
                          then max 0 (conveyor_utilization ts1 - job_quantity job / conveyor_capacity ts1)
                          else conveyor_utilization ts1) \<rparr>))"

fun finish_jobs ::
  "real \<Rightarrow> TransportSystem \<Rightarrow> (string \<times> TransportJob) list \<Rightarrow> string list \<Rightarrow>
   error + TransportSystem \<times> string list" where
  "finish_jobs current_time ts [] completed = Inr (ts, completed)"
| "finish_jobs current_time ts ((jid, job) # jobs) completed =
     (case job_completion_time job of
        None \<Rightarrow> Inl TypeError
      | Some ct \<Rightarrow>
          if current_time \<ge> ct then
            (case finish_job current_time ts job of
               Inl e \<Rightarrow> Inl e
             | Inr ts1 \<Rightarrow> finish_jobs current_time ts1 jobs (completed @ [jid]))
          else finish_jobs current_time ts jobs completed)"

definition update_active_transports :: "TransportSystem \<Rightarrow> real \<Rightarrow> error + TransportSystem" where
  "update_active_transports ts current_time =
     (case finish_jobs current_time ts (active_transports ts) [] of
        Inl e \<Rightarrow> Inl e
      | Inr (ts1, completed) \<Rightarrow>
          Inr (ts1\<lparr> active_transports :=
                     filter (\<lambda>(jid, job). jid \<notin> set completed) (active_transports ts1) \<rparr>))"

text \<open>\<^verbatim>\<open>maintain_agvs\<close>: charging and scheduled maintenance of every vehicle.\<close>

definition maintain_agv :: "AGV \<Rightarrow> AGV" where
  "maintain_agv agv =
     (let a1 = (if agv_status agv = ''idle'' \<and> battery_level agv < 0.3
                then agv\<lparr> agv_status := ''charging'' \<rparr> else agv);
          a2 = (if agv_status a1 = ''charging'' then
                  (let a = a1\<lparr> battery_level := min 1.0 (battery_level a1 + 0.1) \<rparr>
                   in if battery_level a \<ge> 0.95 then a\<lparr> agv_status := ''idle'' \<rparr> else a)
                else a1)
      in if maintenance_hours a2 > 100
         then a2\<lparr> agv_status := ''maintenance'', maintenance_hours := 0 \<rparr>
         else a2)"

definition maintain_agvs :: "TransportSystem \<Rightarrow> real \<Rightarrow> TransportSystem" where
  "maintain_agvs ts current_time =
     ts\<lparr> agv_fleet := map (\<lambda>(agv_id, agv). (agv_id, maintain_agv agv)) (agv_fleet ts) \<rparr>"

section \<open>Recipes and tasks\<close>

record Recipe =
  recipe_output :: ResourceType
  output_quantity :: real
  inputs :: "(ResourceType \<times> real) list"
  energy_kwh :: real
  time_hours :: real
  required_module :: "string option"
  parallel_capable :: bool
  tolerance_um :: "real option"
  cleanroom_class :: "int option"
  software_required :: "ResourceType option"
  waste_products :: "(ResourceType \<times> real) list option"

record Task =
  task_id :: string
  priority :: int
  task_output :: ResourceType
  quantity :: real
  recipe :: Recipe
  dependencies :: "string set"
  status :: string
  assigned_module :: "string option"
  transport_jobs :: "string list"
  batch_size :: real
  setup_time :: real
  process_time :: real
  quality_yield :: real
  contamination_impact :: real
  tolerance_achieved :: "real option"
  start_time :: "real option"
  completion_time :: real
  actual_output :: real
  waste_generated :: "(ResourceType \<times> real) list"
  energy_consumed :: real
  software_reliability :: real

text \<open>The dataclass defaults of \<^verbatim>\<open>Task(task_id, priority, output, quantity, recipe)\<close>.\<close>

definition Task_init :: "string \<Rightarrow> int \<Rightarrow> ResourceType \<Rightarrow> real \<Rightarrow> Recipe \<Rightarrow> Task" where
  "Task_init tid prio out qty rcp =
     \<lparr> task_id = tid, priority = prio, task_output = out, quantity = qty, recipe = rcp,
       dependencies = {}, status = ''queued'', assigned_module = None, transport_jobs = [],
       batch_size = 0, setup_time = 0, process_time = 0, quality_yield = 0.95,
       contamination_impact = 1.0, tolerance_achieved = None, start_time = None,
       completion_time = 0, actual_output = 0, waste_generated = [], energy_consumed = 0,
       software_reliability = 1.0 \<rparr>"

section \<open>The factory\<close>

text \<open>
  A log message is the text of its f-string with the formatted values beside it: the
  strings first, then the numbers.
\<close>

datatype log_message = Msg string "string list" "real list"

record LogEntry =
  timestamp :: real
  level :: string
  message :: log_message
  thermal_load :: real
  waste_total :: real

record Factory =
  config :: Config
  time :: real
  task_counter :: nat
  log_entries :: "LogEntry list"
  module_states :: "(string \<times> ModuleState) list"
  transport_system :: TransportSystem
  waste_stream :: WasteStream
  software_system :: SoftwareProductionSystem
  thermal_system :: ThermalManagementSystem
  cleanroom_environments :: "(string \<times> CleanRoomEnvironment) list"
  storage :: StorageSystem
  energy_system :: EnergySystem
  task_queue :: "Task heap"
  active_tasks :: "(string \<times> Task) list"
  completed_tasks :: "Task list"
  completed_task_ids :: "string set"
  blocked_tasks :: "(string \<times> Task) list"
  random_state :: rng

text \<open>\<^verbatim>\<open>Factory.log\<close>: the entry is appended, and a log above 5000 entries keeps its last 2500.\<close>

definition factory_log :: "Factory \<Rightarrow> log_message \<Rightarrow> string \<Rightarrow> Factory" where
  "factory_log s msg lvl =
     (let entry = \<lparr> timestamp = time s, level = lvl, message = msg,
                    thermal_load = calculate_module_heat (module_states s),
                    waste_total = get_total_waste (waste_stream s) \<rparr>;
          entries = log_entries s @ [entry]
      in s\<lparr> log_entries :=
             (if length entries > MAX_LOG_ENTRIES
              then drop (length entries - LOG_TRIM_SIZE) entries else entries) \<rparr>)"

subsection \<open>Recipe expansion\<close>

definition new_task_id :: "nat \<Rightarrow> ResourceType \<Rightarrow> string" where
  "new_task_id n out = ''task_'' @ zero_pad 5 n @ ''_'' @ out"

definition add_dependency :: "Task \<Rightarrow> Task option \<Rightarrow> Task" where
  "add_dependency task dep =
     (case dep of None \<Rightarrow> task
      | Some d \<Rightarrow> task\<lparr> dependencies := insert (task_id d) (dependencies task) \<rparr>)"

text \<open>The end of \<^verbatim>\<open>create_production_task\<close>: the push and the log line.\<close>

definition push_task :: "Factory \<Rightarrow> Task \<Rightarrow> Factory" where
  "push_task s task =
     factory_log
       (s\<lparr> task_queue := heappush (task_queue s) (priority task, task_id task, task) \<rparr>)
       (Msg ''Created task {} for {} {}'' [task_id task, task_output task] [quantity task]) ''INFO''"

text \<open>
  The availability check of one input: what the store holds, plus what
  \<^verbatim>\<open>process_recycling\<close> recovers when the input is a recyclable material. The waste stream
  is updated by the draw.
\<close>

definition input_available :: "Factory \<Rightarrow> ResourceType \<Rightarrow> real \<Rightarrow> real \<times> Factory" where
  "input_available s input_resource required =
     (let available = get0 (current_inventory (storage s)) input_resource
      in if input_resource \<in> fst ` set (recyclable_materials (waste_stream s)) then
           (let (recovered, ws) = process_recycling (waste_stream s) input_resource required
            in (available + recovered, s\<lparr> waste_stream := ws \<rparr>))
         else (available, s))"

lemma card_unvisited_less:
  "x \<in> A \<Longrightarrow> x \<notin> v \<Longrightarrow> finite A \<Longrightarrow> card (A - insert x v) < card (A - v)"
  by (rule psubset_card_mono) auto

lemma find_recipe_output:
  "find (\<lambda>r. recipe_output r = out) RECIPES = Some rcp \<Longrightarrow> out \<in> recipe_output ` set RECIPES"
  by (auto simp: find_Some_iff)

text \<open>
  \<^verbatim>\<open>create_production_task\<close> with the loop over \<^verbatim>\<open>recipe.inputs\<close> as
  \<open>expand_inputs\<close>. \<open>RECIPES\<close> is the module-level list; \<open>visited\<close> is \<^verbatim>\<open>_visited\<close> (empty
  for \<^verbatim>\<open>None\<close>). Every recursive call receives a copy of the set, so the final
  \<^verbatim>\<open>_visited.discard(output)\<close> is seen by no caller inside the recursion. The cycle
  error carries the visited set and the resource that closed the cycle: the list of the
  source is that set in iteration order followed by the resource. An exception leaves
  the state as it is when it is raised. The expansion terminates: every nested call is
  made with one more resource in the visited set, and only resources that have a recipe
  are ever added.
\<close>

function (sequential)
  create_production_task ::
    "Recipe list \<Rightarrow> Factory \<Rightarrow> ResourceType \<Rightarrow> real \<Rightarrow> int \<Rightarrow> ResourceType set \<Rightarrow>
     (error + Task option) \<times> Factory"
and expand_inputs ::
    "Recipe list \<Rightarrow> Factory \<Rightarrow> Task \<Rightarrow> ResourceType set \<Rightarrow> (ResourceType \<times> real) list \<Rightarrow>
     (error + Task) \<times> Factory"
where
  "create_production_task RECIPES s out qty prio visited =
     (if out \<in> visited then (Inl (CircularDependencyError visited out), s)
      else
        (case find (\<lambda>r. recipe_output r = out) RECIPES of
           None \<Rightarrow> (Inr None, factory_log s (Msg ''No recipe found for {}'' [out] []) ''ERROR'')
         | Some rcp \<Rightarrow>
             if \<not> fst (can_store (storage s) out qty) then
               (Inr None,
                factory_log s
                  (Msg ''Cannot store {} {}: {}'' [out, snd (can_store (storage s) out qty)] [qty])
                  ''WARNING'')
             else
               (let s1 = s\<lparr> task_counter := task_counter s + 1 \<rparr>;
                    task = Task_init (new_task_id (task_counter s1) out) prio out qty rcp
                in case expand_inputs RECIPES s1 task (insert out visited) (inputs rcp) of
                     (Inl e, s2) \<Rightarrow> (Inl e, s2)
                   | (Inr task2, s2) \<Rightarrow>
                       (case software_required rcp of
                          None \<Rightarrow> (Inr (Some task2), push_task s2 task2)
                        | Some sw \<Rightarrow>
                            if software_in_library (software_system s2) sw
                            then (Inr (Some task2), push_task s2 task2)
                            else
                              (case create_production_task RECIPES s2 sw 1 (prio + 2)
                                      (insert out visited) of
                                 (Inl e, s3) \<Rightarrow> (Inl e, s3)
                               | (Inr sw_task, s3) \<Rightarrow>
                                   (Inr (Some (add_dependency task2 sw_task)),
                                    push_task s3 (add_dependency task2 sw_task)))))))"
| "expand_inputs RECIPES s task visited [] = (Inr task, s)"
| "expand_inputs RECIPES s task visited ((input_resource, input_qty) # rest) =
     (if output_quantity (recipe task) = 0 then (Inl ZeroDivisionError, s)
      else
        (let required = input_qty * quantity task / output_quantity (recipe task);
             available = fst (input_available s input_resource required);
             s1 = snd (input_available s input_resource required)
         in if available < required then
              (case create_production_task RECIPES s1 input_resource
                      ((required - available) * 1.1) (priority task + 1) visited of
                 (Inl e, s2) \<Rightarrow> (Inl e, s2)
               | (Inr dep_task, s2) \<Rightarrow>
                   expand_inputs RECIPES s2 (add_dependency task dep_task) visited rest)
            else expand_inputs RECIPES s1 task visited rest))"
  by pat_completeness auto

termination
  apply (relation "inv_image (less_than <*lex*> less_than)
     (\<lambda>x. case x of
        Inl (R, s, out, q, p, v) \<Rightarrow> (card (recipe_output ` set R - v), 0::nat)
      | Inr (R, s, task, v, ins) \<Rightarrow> (card (recipe_output ` set R - v), Suc (length ins)))")
  apply (auto intro!: card_unvisited_less dest: find_recipe_output)
  done

declare create_production_task.simps [simp del]

subsection \<open>Module assignment\<close>




subsection \<open>Production parameters\<close>

record ProductionParams =
  pp_setup_time :: real
  pp_process_time :: real
  pp_total_time :: real
  pp_energy_required :: real
  pp_expected_yield :: real
  pp_transport_time :: real
  pp_waste_generated :: "(ResourceType \<times> real) list"




subsection \<open>The gates of \<^verbatim>\<open>process_task\<close>\<close>

text \<open>A gate that fails sets the status and files the task under its id in the blocked map.\<close>

definition block_task :: "Factory \<Rightarrow> Task \<Rightarrow> string \<Rightarrow> Factory" where
  "block_task s task st =
     s\<lparr> blocked_tasks := AList.update (task_id task) (task\<lparr> status := st \<rparr>) (blocked_tasks s) \<rparr>"

text \<open>
  The solar estimate of the energy gate; \<^verbatim>\<open>random.gauss\<close> is called only with the weather
  enabled.
\<close>

definition solar_now :: "Factory \<Rightarrow> real \<times> Factory" where
  "solar_now s =
     (let hour = py_fmod (time s) 24; day = py_int (time s / 24)
      in if cfg_enable_weather (config s) then
           (calculate_solar_generation (config s) (energy_system s)
              (fst (draw (random_state s))) hour day,
            s\<lparr> random_state := snd (draw (random_state s)) \<rparr>)
         else (calculate_solar_generation (config s) (energy_system s) 0 hour day, s))"

text \<open>
  The first loop over \<^verbatim>\<open>task.recipe.inputs\<close>: a transport job from the store to the module
  for every input. The result is the task with the job ids, the transport time and the
  transport system.
\<close>

fun schedule_inputs ::
  "Task \<Rightarrow> string \<Rightarrow> real \<Rightarrow> TransportSystem \<Rightarrow> (ResourceType \<times> real) list \<Rightarrow>
   error + Task \<times> real \<times> TransportSystem" where
  "schedule_inputs task mtype ttime ts [] = Inr (task, ttime, ts)"
| "schedule_inputs task mtype ttime ts ((input_resource, input_qty) # rest) =
     (if output_quantity (recipe task) = 0 then Inl ZeroDivisionError
      else
        (let required = input_qty * quantity task / output_quantity (recipe task);
             scheduled = schedule_transport ts ''storage'' mtype input_resource required
                           (priority task + 10);
             job = fst scheduled
         in schedule_inputs (task\<lparr> transport_jobs := transport_jobs task @ [job_id job] \<rparr>) mtype
              (max ttime (distance job / conveyor_speed (snd scheduled) / 3600))
              (snd scheduled) rest))"

text \<open>The second loop: the first input the store does not cover, with the amount required.\<close>

fun missing_input :: "Factory \<Rightarrow> Task \<Rightarrow> (ResourceType \<times> real) list \<Rightarrow> (ResourceType \<times> real) option" where
  "missing_input s task [] = None"
| "missing_input s task ((input_resource, input_qty) # rest) =
     (let required = input_qty * quantity task / output_quantity (recipe task)
      in if get0 (current_inventory (storage s)) input_resource < required
         then Some (input_resource, required)
         else missing_input s task rest)"

text \<open>
  The third loop: \<^verbatim>\<open>current_inventory[input_resource] -= required\<close>, a \<^verbatim>\<open>KeyError\<close> for a
  resource the inventory has no entry for.
\<close>

fun consume_inputs ::
  "(ResourceType \<times> real) list \<Rightarrow> Task \<Rightarrow> (ResourceType \<times> real) list \<Rightarrow>
   error + (ResourceType \<times> real) list" where
  "consume_inputs inventory task [] = Inr inventory"
| "consume_inputs inventory task ((input_resource, input_qty) # rest) =
     (let required = input_qty * quantity task / output_quantity (recipe task)
      in case map_of inventory input_resource of
           None \<Rightarrow> Inl (KeyError input_resource)
         | Some stock \<Rightarrow>
             consume_inputs (AList.update input_resource (stock - required) inventory) task rest)"

text \<open>All checks passed: the task starts on module \<open>mid\<close>.\<close>

definition start_production ::
  "Factory \<Rightarrow> Task \<Rightarrow> string \<Rightarrow> ModuleState \<Rightarrow> ProductionParams \<Rightarrow> (error + bool) \<times> Factory" where
  "start_production s task mid ms params =
     (let task1 = task\<lparr> status := ''active'', assigned_module := Some mid,
                        setup_time := pp_setup_time params,
                        process_time := pp_process_time params,
                        start_time := Some (time s),
                        completion_time := time s + pp_total_time params + pp_transport_time params,
                        energy_consumed := pp_energy_required params,
                        actual_output := pp_expected_yield params,
                        waste_generated := pp_waste_generated params \<rparr>;
          ms1 = ms\<lparr> current_task := Some (task_id task1),
                    setup_end_time := time s + setup_time task1 \<rparr>;
          s1 = s\<lparr> module_states := AList.update mid ms1 (module_states s) \<rparr>
      in case consume_inputs (current_inventory (storage s1)) task1 (inputs (recipe task1)) of
           Inl e \<Rightarrow> (Inl e, s1)
         | Inr inventory \<Rightarrow>
             (let s2 = s1\<lparr> storage := (storage s1)\<lparr> current_inventory := inventory \<rparr> \<rparr>;
                  s3 = s2\<lparr> energy_system :=
                             snd (update_battery (config s2) (energy_system s2)
                                    (- pp_energy_required params) (pp_total_time params)) \<rparr>;
                  s4 = s3\<lparr> active_tasks := AList.update (task_id task1) task1 (active_tasks s3) \<rparr>
              in (Inr True,
                  factory_log s4
                    (Msg ''Started task {} on {} (ETA: {}h)'' [task_id task1, mid]
                       [completion_time task1])
                    ''INFO'')))"

text \<open>The transport scheduling and the resource gate.\<close>

definition resource_gate ::
  "Factory \<Rightarrow> Task \<Rightarrow> string \<Rightarrow> ModuleState \<Rightarrow> ProductionParams \<Rightarrow> (error + bool) \<times> Factory" where
  "resource_gate s task mid ms params =
     (case schedule_inputs task (module_type ms) (pp_transport_time params) (transport_system s)
             (inputs (recipe task)) of
        Inl e \<Rightarrow> (Inl e, s)
      | Inr (task1, ttime, ts) \<Rightarrow>
          (let s1 = s\<lparr> transport_system := ts \<rparr>;
               params1 = params\<lparr> pp_transport_time := ttime \<rparr>
           in case missing_input s1 task1 (inputs (recipe task1)) of
                Some (input_resource, required) \<Rightarrow>
                  (Inr False,
                   factory_log (block_task s1 task1 ''blocked_resources'')
                     (Msg ''Task {} blocked - needs {} {}'' [task_id task1, input_resource] [required])
                     ''INFO'')
              | None \<Rightarrow> start_production s1 task1 mid ms params1))"

text \<open>The energy gate: the battery charge plus the solar estimate over the task's time.\<close>

definition energy_gate ::
  "Factory \<Rightarrow> Task \<Rightarrow> string \<Rightarrow> ModuleState \<Rightarrow> ProductionParams \<Rightarrow> (error + bool) \<times> Factory" where
  "energy_gate s task mid ms params =
     (let solar = fst (solar_now s);
          s1 = snd (solar_now s);
          energy_available = battery_charge_kwh (energy_system s1) + solar * pp_total_time params
      in if energy_available < pp_energy_required params then
           (Inr False,
            factory_log (block_task s1 task ''blocked_energy'')
              (Msg ''Task {} blocked - insufficient energy'' [task_id task] []) ''INFO'')
         else resource_gate s1 task mid ms params)"

text \<open>
  The thermal gate: \<^verbatim>\<open>projected_heat\<close> is the heat of \<^verbatim>\<open>self.module_states\<close> as they are
  when the gate is reached.
\<close>

definition thermal_gate ::
  "Factory \<Rightarrow> Task \<Rightarrow> string \<Rightarrow> ModuleState \<Rightarrow> ProductionParams \<Rightarrow> (error + bool) \<times> Factory" where
  "thermal_gate s task mid ms params =
     (let projected_heat = calculate_module_heat (module_states s)
      in if \<not> check_thermal_constraints (config s) (thermal_system s) projected_heat then
           (Inr False,
            factory_log (block_task s task ''blocked_thermal'')
              (Msg ''Task {} blocked - thermal constraints exceeded'' [task_id task] []) ''INFO'')
         else energy_gate s task mid ms params)"



subsection \<open>Completion of active tasks\<close>

text \<open>\<^verbatim>\<open>str.endswith\<close>, \<^verbatim>\<open>str.startswith\<close> and \<^verbatim>\<open>str.replace\<close> (every occurrence, left to right).\<close>

definition endswith :: "string \<Rightarrow> string \<Rightarrow> bool" where
  "endswith str suf = (length suf \<le> length str \<and> drop (length str - length suf) str = suf)"

definition startswith :: "string \<Rightarrow> string \<Rightarrow> bool" where
  "startswith str pre = (take (length pre) str = pre)"

function str_replace :: "string \<Rightarrow> string \<Rightarrow> string \<Rightarrow> string" where
  "str_replace [] old new = []"
| "str_replace (c # cs) old new =
     (if old \<noteq> [] \<and> take (length old) (c # cs) = old
      then new @ str_replace (drop (length old) (c # cs)) old new
      else c # str_replace cs old new)"
  by pat_completeness auto
termination
  by (relation "measure (\<lambda>(str, old, new). length str)") (auto simp: Suc_diff_le)

text \<open>
  \<^verbatim>\<open>schedule_maintenance\<close>: eight hours of maintenance for a module that is not in
  maintenance already.
\<close>

definition schedule_maintenance :: "Factory \<Rightarrow> string \<Rightarrow> (error + unit) \<times> Factory" where
  "schedule_maintenance s mid =
     (if \<not> cfg_enable_maintenance (config s) then (Inr (), s)
      else
        (case map_of (module_states s) mid of
           None \<Rightarrow> (Inl (KeyError mid), s)
         | Some m \<Rightarrow>
             if \<not> is_in_maintenance m then
               (Inr (),
                factory_log
                  (s\<lparr> module_states :=
                        AList.update mid
                          (m\<lparr> is_in_maintenance := True, maintenance_end_time := time s + 8.0 \<rparr>)
                          (module_states s) \<rparr>)
                  (Msg ''Module {} entering maintenance until {}'' [mid] [time s + 8.0]) ''INFO'')
             else (Inr (), s)))"

text \<open>
  A completed task whose output is a module: the new module's id counts the ids that
  start with the module type. \<open>MODULE_SPECS\<close> is the module-level dictionary. The result
  carries the new id.
\<close>

definition create_module :: "(string \<times> ModuleSpec) list \<Rightarrow> Factory \<Rightarrow> ResourceType \<Rightarrow> string \<times> Factory" where
  "create_module MODULE_SPECS s out =
     (let mtype = str_replace out ''_module'' [];
          new_module_id =
            mtype @ ''_'' @
            zero_pad 3 (length (filter (\<lambda>(m, st). startswith m mtype) (module_states s)) + 1);
          s1 =
            (case map_of MODULE_SPECS mtype of
               Some sp \<Rightarrow>
                 s\<lparr> module_states :=
                      AList.update new_module_id (ModuleState_init new_module_id mtype (Some sp))
                        (module_states s),
                    cleanroom_environments :=
                      (if truthy_num (cleanroom_capable sp)
                       then AList.update new_module_id
                              (CleanRoomEnvironment_init (the (cleanroom_capable sp)))
                              (cleanroom_environments s)
                       else cleanroom_environments s) \<rparr>
             | None \<Rightarrow>
                 s\<lparr> module_states :=
                      AList.update new_module_id (ModuleState_init new_module_id mtype None)
                        (module_states s) \<rparr>)
      in (new_module_id,
          factory_log s1 (Msg ''New module created: {}'' [new_module_id] []) ''INFO''))"

text \<open>
  The branch of \<^verbatim>\<open>update_active_tasks\<close> taken when \<^verbatim>\<open>storage.add_resource\<close> returned
  \<^verbatim>\<open>True\<close>: the task is completed, recorded, and a module or a software package is
  created where the output is one. The result tells whether a new module took the id
  \<open>mid\<close> of the module that ran the task.
\<close>

definition record_completion ::
  "(string \<times> ModuleSpec) list \<Rightarrow> Factory \<Rightarrow> string \<Rightarrow> Task \<Rightarrow> string \<Rightarrow> bool \<times> Factory" where
  "record_completion MODULE_SPECS s tid task mid =
     (let task1 = task\<lparr> status := ''completed'' \<rparr>;
          s1 = factory_log
                 (s\<lparr> active_tasks :=
                        map (\<lambda>(k, t). if k = tid then (k, task1) else (k, t)) (active_tasks s),
                      completed_tasks := completed_tasks s @ [task1],
                      completed_task_ids := insert tid (completed_task_ids s) \<rparr>)
                 (Msg ''Completed task {}: {} {}'' [tid, task_output task1] [actual_output task1])
                 ''INFO'';
          created = (if endswith (task_output task1) ''_module''
                     then create_module MODULE_SPECS s1 (task_output task1) else ([], s1));
          replaced = (endswith (task_output task1) ''_module'' \<and> fst created = mid);
          s2 = snd created;
          s3 =
            (if task_output task1 \<in> {''plc_program'', ''robot_firmware'', ''ai_model'', ''scada_system''}
             then
               (let developed = develop_software (software_system s2) (task_output task1)
                                  (process_time task1)
                in factory_log (s2\<lparr> software_system := snd developed \<rparr>)
                     (Msg ''Software developed: {} {}''
                        [task_output task1, pkg_version (fst developed)] [])
                     ''INFO'')
             else s2)
      in (replaced, s3))"

text \<open>
  The end of one iteration: the module is freed and its condition acted upon. The writes
  go to the object that ran the task; when a new module has taken its place in the
  dictionary that object is no longer reachable, and only \<^verbatim>\<open>schedule_maintenance\<close>, which
  reads the dictionary, has an effect.
\<close>

definition release_module ::
  "Factory \<Rightarrow> string \<Rightarrow> ModuleState \<Rightarrow> bool \<Rightarrow> string \<Rightarrow> (error + unit) \<times> Factory" where
  "release_module s mid ms replaced condition =
     (let ms1 = ms\<lparr> current_task := None \<rparr>;
          s1 = (if replaced then s
                else s\<lparr> module_states := AList.update mid ms1 (module_states s) \<rparr>)
      in if condition = ''FAILED'' then
           (Inr (),
            factory_log
              (if replaced then s1
               else s1\<lparr> module_states :=
                          AList.update mid (ms1\<lparr> is_failed := True \<rparr>) (module_states s1) \<rparr>)
              (Msg ''Module {} has FAILED!'' [mid] []) ''ERROR'')
         else if condition = ''MAINTENANCE_REQUIRED'' then schedule_maintenance s1 mid
         else (Inr (), s1))"

text \<open>
  One iteration of the loop of \<^verbatim>\<open>update_active_tasks\<close> for a task whose completion time
  has been reached.
\<close>

definition complete_task ::
  "(string \<times> ModuleSpec) list \<Rightarrow> Factory \<Rightarrow> string \<Rightarrow> Task \<Rightarrow> (error + unit) \<times> Factory" where
  "complete_task MODULE_SPECS s tid task =
     (case assigned_module task of
        None \<Rightarrow> (Inl (KeyError ''None''), s)
      | Some mid \<Rightarrow>
          (case map_of (module_states s) mid of
             None \<Rightarrow> (Inl (KeyError mid), s)
           | Some ms \<Rightarrow>
               (let hours_operated = setup_time task + process_time task;
                    updated = update_condition (config s) (random_state s) ms hours_operated;
                    ms1 = fst (snd updated);
                    s1 = s\<lparr> module_states := AList.update mid ms1 (module_states s),
                           random_state := snd (snd updated) \<rparr>
                in case fst updated of
                     Inl e \<Rightarrow> (Inl e, s1)
                   | Inr condition \<Rightarrow>
                       (let s2 =
                              (case map_of (cleanroom_environments s1) mid of
                                 None \<Rightarrow> s1
                               | Some cleanroom \<Rightarrow>
                                   s1\<lparr> cleanroom_environments :=
                                         AList.update mid
                                           (update_contamination cleanroom (quantity task / 100)
                                              hours_operated)
                                           (cleanroom_environments s1) \<rparr>);
                            s3 = s2\<lparr> waste_stream :=
                                       foldl (\<lambda>ws (wt, wq). add_waste ws wt wq) (waste_stream s2)
                                         (waste_generated task) \<rparr>;
                            s4 = s3\<lparr> transport_system :=
                                       snd (schedule_transport (transport_system s3)
                                              (module_type ms1) ''storage'' (task_output task)
                                              (actual_output task) 50) \<rparr>;
                            added = add_resource (storage s4) (task_output task) (actual_output task);
                            recorded =
                              (if fst added
                               then record_completion MODULE_SPECS (s4\<lparr> storage := snd added \<rparr>)
                                      tid task mid
                               else (False,
                                     factory_log s4
                                       (Msg ''Task {} output rejected - storage full'' [tid] [])
                                       ''WARNING''))
                        in release_module (snd recorded) mid ms1 (fst recorded) condition))))"

text \<open>
  The loop over \<^verbatim>\<open>list(self.active_tasks.items())\<close>; \<open>completed_this_step\<close> collects the
  ids of the tasks whose iteration ran to its end.
\<close>

fun update_loop ::
  "(string \<times> ModuleSpec) list \<Rightarrow> Factory \<Rightarrow> (string \<times> Task) list \<Rightarrow> string list \<Rightarrow>
   (error + string list) \<times> Factory" where
  "update_loop MODULE_SPECS s [] completed_this_step = (Inr completed_this_step, s)"
| "update_loop MODULE_SPECS s ((tid, task) # rest) completed_this_step =
     (if time s \<ge> completion_time task then
        (case complete_task MODULE_SPECS s tid task of
           (Inl e, s1) \<Rightarrow> (Inl e, s1)
         | (Inr u, s1) \<Rightarrow> update_loop MODULE_SPECS s1 rest (completed_this_step @ [tid]))
      else update_loop MODULE_SPECS s rest completed_this_step)"

definition update_active_tasks :: "(string \<times> ModuleSpec) list \<Rightarrow> Factory \<Rightarrow> (error + unit) \<times> Factory" where
  "update_active_tasks MODULE_SPECS s =
     (case update_loop MODULE_SPECS s (active_tasks s) [] of
        (Inl e, s1) \<Rightarrow> (Inl e, s1)
      | (Inr completed_this_step, s1) \<Rightarrow>
          (Inr (),
           s1\<lparr> active_tasks :=
                 filter (\<lambda>(k, t). k \<notin> set completed_this_step) (active_tasks s1) \<rparr>))"

subsection \<open>Blocked tasks\<close>

definition should_retry :: "Factory \<Rightarrow> Task \<Rightarrow> bool" where
  "should_retry s task =
     (if status task = ''blocked_dependencies'' then dependencies task \<subseteq> completed_task_ids s
      else status task \<in> set [''blocked_module'', ''blocked_energy'', ''blocked_resources'',
                               ''blocked_thermal'', ''blocked_constraints''])"



subsection \<open>Admission of new tasks\<close>

text \<open>\<^verbatim>\<open>process_task\<close> never touches the priority queue; the admission loop relies on it.\<close>

lemma task_queue_factory_log [simp]: "task_queue (factory_log s m l) = task_queue s"
  by (simp add: factory_log_def Let_def)

lemma task_queue_block_task [simp]: "task_queue (block_task s t st) = task_queue s"
  by (simp add: block_task_def)




lemma task_queue_solar_now [simp]: "task_queue (snd (solar_now s)) = task_queue s"
  by (simp add: solar_now_def Let_def)

lemma task_queue_start_production [simp]:
  "task_queue (snd (start_production s t mid ms pp)) = task_queue s"
  by (simp add: start_production_def Let_def split: sum.splits)

lemma task_queue_resource_gate [simp]:
  "task_queue (snd (resource_gate s t mid ms pp)) = task_queue s"
  by (simp add: resource_gate_def Let_def split: sum.splits prod.splits option.splits)

lemma task_queue_energy_gate [simp]:
  "task_queue (snd (energy_gate s t mid ms pp)) = task_queue s"
  by (simp add: energy_gate_def Let_def)

lemma task_queue_thermal_gate [simp]:
  "task_queue (snd (thermal_gate s t mid ms pp)) = task_queue s"
  by (simp add: thermal_gate_def Let_def)




subsection \<open>The transport phase of a step\<close>

text \<open>
  The three transport calls of \<^verbatim>\<open>simulate_step\<close> at time \<open>t\<close>: dispatch, completion of the
  jobs whose time has come, vehicle upkeep.
\<close>

definition transport_phase :: "TransportSystem \<Rightarrow> real \<Rightarrow> error + TransportSystem" where
  "transport_phase ts t =
     (case process_transport_queue ts t of
        Inl e \<Rightarrow> Inl e
      | Inr (ts1, jobs_started) \<Rightarrow>
          (case update_active_transports ts1 t of
             Inl e \<Rightarrow> Inl e
           | Inr ts2 \<Rightarrow> Inr (maintain_agvs ts2 t)))"

section \<open>Evaluating the model on concrete factories\<close>

text \<open>
  The fields of the initial values, as rewrite rules: a concrete run is evaluated by
  unfolding the functions of the model, and the initial values are looked into only
  where a field is read.
\<close>

lemma Task_init_fields [simp]:
  "task_id (Task_init tid prio out qty rcp) = tid"
  "priority (Task_init tid prio out qty rcp) = prio"
  "task_output (Task_init tid prio out qty rcp) = out"
  "quantity (Task_init tid prio out qty rcp) = qty"
  "recipe (Task_init tid prio out qty rcp) = rcp"
  "dependencies (Task_init tid prio out qty rcp) = {}"
  "status (Task_init tid prio out qty rcp) = ''queued''"
  "assigned_module (Task_init tid prio out qty rcp) = None"
  "transport_jobs (Task_init tid prio out qty rcp) = []"
  "batch_size (Task_init tid prio out qty rcp) = 0"
  "setup_time (Task_init tid prio out qty rcp) = 0"
  "process_time (Task_init tid prio out qty rcp) = 0"
  "quality_yield (Task_init tid prio out qty rcp) = 0.95"
  "contamination_impact (Task_init tid prio out qty rcp) = 1.0"
  "tolerance_achieved (Task_init tid prio out qty rcp) = None"
  "start_time (Task_init tid prio out qty rcp) = None"
  "completion_time (Task_init tid prio out qty rcp) = 0"
  "actual_output (Task_init tid prio out qty rcp) = 0"
  "waste_generated (Task_init tid prio out qty rcp) = []"
  "energy_consumed (Task_init tid prio out qty rcp) = 0"
  "software_reliability (Task_init tid prio out qty rcp) = 1.0"
  by (simp_all add: Task_init_def)

lemma ModuleState_init_fields [simp]:
  "module_id (ModuleState_init mid mtype sp) = mid"
  "module_type (ModuleState_init mid mtype sp) = mtype"
  "spec (ModuleState_init mid mtype sp) = sp"
  "operating_hours (ModuleState_init mid mtype sp) = 0"
  "cycles_completed (ModuleState_init mid mtype sp) = 0"
  "time_since_maintenance (ModuleState_init mid mtype sp) = 0"
  "current_efficiency (ModuleState_init mid mtype sp) = 1"
  "is_failed (ModuleState_init mid mtype sp) = False"
  "is_in_maintenance (ModuleState_init mid mtype sp) = False"
  "maintenance_end_time (ModuleState_init mid mtype sp) = 0"
  "current_task (ModuleState_init mid mtype sp) = None"
  "setup_end_time (ModuleState_init mid mtype sp) = 0"
  "last_product_type (ModuleState_init mid mtype sp) = None"
  "software_version (ModuleState_init mid mtype sp) = None"
  "contamination_level (ModuleState_init mid mtype sp) = 0"
  "temperature (ModuleState_init mid mtype sp) = 22"
  by (simp_all add: ModuleState_init_def)

lemma EnergySystem_init_fields [simp]:
  "solar_capacity_kw (EnergySystem_init cfg) = cfg_initial_solar_capacity_kw cfg"
  "panel_efficiency (EnergySystem_init cfg) = cfg_solar_panel_efficiency cfg"
  "battery_capacity_kwh (EnergySystem_init cfg) = 1000"
  "battery_charge_kwh (EnergySystem_init cfg) = 1000 * 0.5"
  "battery_cycles (EnergySystem_init cfg) = 0"
  "panel_age_days (EnergySystem_init cfg) = 0"
  "days_since_cleaning (EnergySystem_init cfg) = 0"
  "latitude (EnergySystem_init cfg) = cfg_latitude cfg"
  "average_cloud_cover (EnergySystem_init cfg) = cfg_average_cloud_cover cfg"
  by (simp_all add: EnergySystem_init_def)

lemma ThermalManagementSystem_init_fields [simp]:
  "ambient_temp (ThermalManagementSystem_init cfg) = cfg_ambient_temperature cfg"
  "total_heat_generation (ThermalManagementSystem_init cfg) = 0"
  "cooling_capacity (ThermalManagementSystem_init cfg) = 10000"
  "chiller_efficiency (ThermalManagementSystem_init cfg) = 3.5"
  by (simp_all add: ThermalManagementSystem_init_def)

lemma TransportSystem_init_fields [simp]:
  "transport_queue (TransportSystem_init cfg) = []"
  "active_transports (TransportSystem_init cfg) = []"
  "completed_transports (TransportSystem_init cfg) = []"
  "agv_fleet (TransportSystem_init cfg) = map (\<lambda>i. (''agv_'' @ zero_pad 3 i, AGV_init)) [0 ..< cfg_agv_fleet_size cfg]"
  "conveyor_capacity (TransportSystem_init cfg) = 1000"
  "conveyor_speed (TransportSystem_init cfg) = 2.0"
  "conveyor_utilization (TransportSystem_init cfg) = 0.0"
  "module_locations (TransportSystem_init cfg) = generate_layout"
  by (simp_all add: TransportSystem_init_def)

lemma WasteStream_init_fields [simp]:
  "waste_inventory WasteStream_init = []"
  "recyclable_materials WasteStream_init = [(''steel'', 0.95), (''aluminum_sheet'', 0.90), (''copper_wire'', 0.85), (''plastic'', 0.60), (''glass'', 0.80), (''silicon_wafer'', 0.70)]"
  by (simp_all add: WasteStream_init_def)

lemma SoftwareProductionSystem_init_fields [simp]:
  "software_library SoftwareProductionSystem_init = []"
  "development_hours SoftwareProductionSystem_init = []"
  "bug_rates SoftwareProductionSystem_init = [(''plc_program'', 0.05), (''robot_firmware'', 0.08), (''ai_model'', 0.15), (''scada_system'', 0.10)]"
  "version_counter SoftwareProductionSystem_init = []"
  by (simp_all add: SoftwareProductionSystem_init_def)

lemma AGV_init_fields [simp]:
  "agv_status AGV_init = ''idle''"
  "battery_level AGV_init = 1.0"
  "current_load AGV_init = 0"
  "max_load AGV_init = 2000"
  "speed_mps AGV_init = 1.0"
  "location AGV_init = ''depot''"
  "maintenance_hours AGV_init = 0"
  by (simp_all add: AGV_init_def)

lemma CleanRoomEnvironment_init_fields [simp]:
  "env_cleanroom_class (CleanRoomEnvironment_init c) = c"
  "particle_count (CleanRoomEnvironment_init c) = get_base_particles c"
  "time_since_cleaning (CleanRoomEnvironment_init c) = 0"
  by (simp_all add: CleanRoomEnvironment_init_def)



section \<open>A concrete configuration\<close>

text \<open>The dictionary \<^verbatim>\<open>CONFIG\<close> of the source, as far as the simulation reads it.\<close>

definition default_config :: Config where
  "default_config =
     \<lparr> cfg_initial_solar_capacity_kw = 100, cfg_solar_panel_efficiency = 0.22,
       cfg_battery_efficiency = 0.95, cfg_latitude = 35, cfg_average_cloud_cover = 0.3,
       cfg_ambient_temperature = 25, cfg_factory_area_m2 = 20000,
       cfg_max_storage_volume_m3 = 15000, cfg_max_storage_weight_tons = 10000,
       cfg_agv_fleet_size = 10, cfg_enable_degradation = True, cfg_enable_weather = True,
       cfg_enable_maintenance = True, cfg_enable_storage_limits = True,
       cfg_enable_batch_processing = True \<rparr>"

lemma default_config_fields [simp]:
  "cfg_initial_solar_capacity_kw default_config = 100"
  "cfg_solar_panel_efficiency default_config = 0.22"
  "cfg_battery_efficiency default_config = 0.95"
  "cfg_latitude default_config = 35"
  "cfg_average_cloud_cover default_config = 0.3"
  "cfg_ambient_temperature default_config = 25"
  "cfg_factory_area_m2 default_config = 20000"
  "cfg_max_storage_volume_m3 default_config = 15000"
  "cfg_max_storage_weight_tons default_config = 10000"
  "cfg_agv_fleet_size default_config = 10"
  "cfg_enable_degradation default_config = True"
  "cfg_enable_weather default_config = True"
  "cfg_enable_maintenance default_config = True"
  "cfg_enable_storage_limits default_config = True"
  "cfg_enable_batch_processing default_config = True"
  by (simp_all add: default_config_def)

section \<open>A seed factory\<close>

text \<open>
  A factory with one refining module (the \<^verbatim>\<open>refining\<close> entry of \<^verbatim>\<open>MODULE_SPECS\<close>), iron and
  carbon ore in the store, the steel recipe of \<^verbatim>\<open>RECIPES\<close>, the weather switched off, a
  solar capacity of 300 kW and every random draw equal to 1.
\<close>

definition quiet_config :: Config where
  "quiet_config =
     default_config\<lparr> cfg_enable_weather := False, cfg_agv_fleet_size := 1,
                      cfg_initial_solar_capacity_kw := 300 \<rparr>"

definition refining_spec :: ModuleSpec where
  "refining_spec =
     \<lparr> spec_module_type = ''refining'', max_throughput = 5.0, power_consumption_idle = 10.0,
       power_consumption_active = 100.0, mtbf_hours = 4000, maintenance_interval = 300,
       degradation_rate = 0.03, physical_footprint = 300, max_batch_size = 50,
       min_batch_size = 5, spec_setup_time = 2.0, quality_base_rate = 0.95,
       tolerance_capability = None, cleanroom_capable = None \<rparr>"

definition steel_recipe :: Recipe where
  "steel_recipe =
     \<lparr> recipe_output = ''steel'', output_quantity = 500,
       inputs = [(''iron_ore'', 600), (''carbon_ore'', 10)],
       energy_kwh = 150, time_hours = 1.5, required_module = Some ''refining'',
       parallel_capable = True, tolerance_um = None, cleanroom_class = None,
       software_required = None, waste_products = None \<rparr>"

definition seed_storage :: StorageSystem where
  "seed_storage =
     \<lparr> total_volume_m3 = 15000, total_weight_capacity_tons = 10000,
       current_inventory = [(''iron_ore'', 1000), (''carbon_ore'', 100)],
       storage_waste_inventory = [],
       enabled = True, temperature_controlled = True, contamination_controlled = True \<rparr>"

definition seed_factory :: Factory where
  "seed_factory =
     \<lparr> config = quiet_config, time = 0, task_counter = 0, log_entries = [],
       module_states =
         [(''refining_001'', ModuleState_init ''refining_001'' ''refining'' (Some refining_spec))],
       transport_system = TransportSystem_init quiet_config,
       waste_stream = WasteStream_init,
       software_system = SoftwareProductionSystem_init,
       thermal_system = ThermalManagementSystem_init quiet_config,
       cleanroom_environments = [],
       storage = seed_storage,
       energy_system = EnergySystem_init quiet_config,
       task_queue = [], active_tasks = [], completed_tasks = [], completed_task_ids = {},
       blocked_tasks = [], random_state = (\<lambda>n. 1, 0) \<rparr>"

definition steel_task :: "real \<Rightarrow> Task" where
  "steel_task qty = Task_init ''task_00001_steel'' 1 ''steel'' qty steel_recipe"

lemma seed_factory_fields [simp]:
  "config seed_factory = quiet_config"
  "time seed_factory = 0"
  "task_counter seed_factory = 0"
  "log_entries seed_factory = []"
  "module_states seed_factory = [(''refining_001'', ModuleState_init ''refining_001'' ''refining'' (Some refining_spec))]"
  "transport_system seed_factory = TransportSystem_init quiet_config"
  "waste_stream seed_factory = WasteStream_init"
  "software_system seed_factory = SoftwareProductionSystem_init"
  "thermal_system seed_factory = ThermalManagementSystem_init quiet_config"
  "cleanroom_environments seed_factory = []"
  "storage seed_factory = seed_storage"
  "energy_system seed_factory = EnergySystem_init quiet_config"
  "task_queue seed_factory = []"
  "active_tasks seed_factory = []"
  "completed_tasks seed_factory = []"
  "completed_task_ids seed_factory = {}"
  "blocked_tasks seed_factory = []"
  "random_state seed_factory = (\<lambda>n. 1, 0)"
  by (simp_all add: seed_factory_def)

lemma steel_recipe_fields [simp]:
  "recipe_output steel_recipe = ''steel''"
  "output_quantity steel_recipe = 500"
  "inputs steel_recipe = [(''iron_ore'', 600), (''carbon_ore'', 10)]"
  "energy_kwh steel_recipe = 150"
  "time_hours steel_recipe = 1.5"
  "required_module steel_recipe = Some ''refining''"
  "parallel_capable steel_recipe = True"
  "tolerance_um steel_recipe = None"
  "cleanroom_class steel_recipe = None"
  "software_required steel_recipe = None"
  "waste_products steel_recipe = None"
  by (simp_all add: steel_recipe_def)

lemma refining_spec_fields [simp]:
  "spec_module_type refining_spec = ''refining''"
  "max_throughput refining_spec = 5.0"
  "power_consumption_idle refining_spec = 10.0"
  "power_consumption_active refining_spec = 100.0"
  "mtbf_hours refining_spec = 4000"
  "maintenance_interval refining_spec = 300"
  "degradation_rate refining_spec = 0.03"
  "physical_footprint refining_spec = 300"
  "max_batch_size refining_spec = 50"
  "min_batch_size refining_spec = 5"
  "spec_setup_time refining_spec = 2.0"
  "quality_base_rate refining_spec = 0.95"
  "tolerance_capability refining_spec = None"
  "cleanroom_capable refining_spec = None"
  by (simp_all add: refining_spec_def)

lemma seed_storage_fields [simp]:
  "total_volume_m3 seed_storage = 15000"
  "total_weight_capacity_tons seed_storage = 10000"
  "current_inventory seed_storage = [(''iron_ore'', 1000), (''carbon_ore'', 100)]"
  "storage_waste_inventory seed_storage = []"
  "enabled seed_storage = True"
  "temperature_controlled seed_storage = True"
  "contamination_controlled seed_storage = True"
  by (simp_all add: seed_storage_def)

lemma quiet_config_fields [simp]:
  "cfg_initial_solar_capacity_kw quiet_config = 300"
  "cfg_solar_panel_efficiency quiet_config = cfg_solar_panel_efficiency default_config"
  "cfg_battery_efficiency quiet_config = cfg_battery_efficiency default_config"
  "cfg_latitude quiet_config = cfg_latitude default_config"
  "cfg_average_cloud_cover quiet_config = cfg_average_cloud_cover default_config"
  "cfg_ambient_temperature quiet_config = cfg_ambient_temperature default_config"
  "cfg_factory_area_m2 quiet_config = cfg_factory_area_m2 default_config"
  "cfg_max_storage_volume_m3 quiet_config = cfg_max_storage_volume_m3 default_config"
  "cfg_max_storage_weight_tons quiet_config = cfg_max_storage_weight_tons default_config"
  "cfg_agv_fleet_size quiet_config = 1"
  "cfg_enable_degradation quiet_config = cfg_enable_degradation default_config"
  "cfg_enable_weather quiet_config = False"
  "cfg_enable_maintenance quiet_config = cfg_enable_maintenance default_config"
  "cfg_enable_storage_limits quiet_config = cfg_enable_storage_limits default_config"
  "cfg_enable_batch_processing quiet_config = cfg_enable_batch_processing default_config"
  by (simp_all add: quiet_config_def)

lemma steel_task_fields [simp]:
  "task_id (steel_task qty) = ''task_00001_steel''"
  "priority (steel_task qty) = 1"
  "task_output (steel_task qty) = ''steel''"
  "quantity (steel_task qty) = qty"
  "recipe (steel_task qty) = steel_recipe"
  "dependencies (steel_task qty) = {}"
  "contamination_impact (steel_task qty) = 1.0"
  by (simp_all add: steel_task_def)

section \<open>The battery stays within its limits\<close>

lemma update_battery_capacity [simp]:
  "battery_capacity_kwh (snd (update_battery cfg es delta duration)) = battery_capacity_kwh es"
  by (simp add: update_battery_def Let_def)

lemma update_battery_in_bounds:
  assumes "0 \<le> cfg_battery_efficiency cfg" and "0 \<le> battery_capacity_kwh es"
    and "battery_in_bounds es"
  shows "battery_in_bounds (snd (update_battery cfg es delta duration))"
proof (cases "delta > 0")
  case True
  have "0 \<le> min delta (battery_capacity_kwh es * 0.5) * cfg_battery_efficiency cfg"
    using True assms(1,2) by (intro mult_nonneg_nonneg) auto
  then show ?thesis
    using True assms(2,3) by (auto simp: update_battery_def battery_in_bounds_def Let_def min_def)
next
  case False
  then show ?thesis
    using assms(2,3) by (auto simp: update_battery_def battery_in_bounds_def Let_def min_def)
qed

lemma battery_run_in_bounds:
  assumes "0 \<le> cfg_battery_efficiency cfg"
  shows "0 \<le> battery_capacity_kwh es \<Longrightarrow> battery_in_bounds es \<Longrightarrow>
         battery_in_bounds (battery_run cfg es calls)"
proof (induction calls arbitrary: es)
  case Nil
  then show ?case by simp
next
  case (Cons c calls)
  obtain delta duration where c: "c = (delta, duration)" by (cases c)
  show ?case
    unfolding c battery_run.simps
    by (rule Cons.IH) (simp_all add: Cons.prems update_battery_in_bounds assms)
qed

text \<open>
  Claim C4. At every tick the battery charge stays between 0.2 and 0.95 times the battery
  capacity: the charge starts at half the capacity, and whatever sequence of
  \<^verbatim>\<open>update_battery\<close> calls (charging or discharging, by any amount) a run makes, the charge
  after them is within the two limits. The battery efficiency of a validated
  configuration is positive; the proof needs it to be non-negative. The charge is read
  as a real number.
\<close>

theorem battery_charge_within_bounds:
  "0 \<le> cfg_battery_efficiency cfg \<Longrightarrow>
   battery_in_bounds (battery_run cfg (EnergySystem_init cfg) calls)"
  by (rule battery_run_in_bounds) (simp_all add: EnergySystem_init_def battery_in_bounds_def)

text \<open>
  With the default configuration: a charge of 2000 kWh is cut at the upper limit of
  950 kWh, and a discharge of 5000 kWh after it takes the 500 kWh the rate allows.
\<close>

theorem battery_charge_within_bounds_witness:
  "0 \<le> cfg_battery_efficiency default_config \<and>
   battery_in_bounds
     (battery_run default_config (EnergySystem_init default_config) [(2000, 0.1), (- 5000, 0.1)]) \<and>
   battery_charge_kwh
     (battery_run default_config (EnergySystem_init default_config) [(2000, 0.1)]) = 950 \<and>
   battery_charge_kwh
     (battery_run default_config (EnergySystem_init default_config) [(2000, 0.1), (- 5000, 0.1)]) = 450"
  using battery_charge_within_bounds [of default_config "[(2000, 0.1), (- 5000, 0.1)]"]
  by (simp add: default_config_def EnergySystem_init_def update_battery_def Let_def)

section \<open>Reading the gates backwards\<close>

text \<open>What a started task has passed: each lemma undoes one stage of \<^verbatim>\<open>process_task\<close>.\<close>

lemma get_effective_throughput_last_product [simp]:
  "get_effective_throughput (m\<lparr> last_product_type := x \<rparr>) = get_effective_throughput m"
  by (simp add: get_effective_throughput_def Let_def split: option.splits)







lemma active_tasks_factory_log [simp]: "active_tasks (factory_log s m l) = active_tasks s"
  by (simp add: factory_log_def Let_def)







section \<open>The output of a started task\<close>










section \<open>Effective throughput\<close>





section \<open>The admission loop\<close>








section \<open>Re-evaluation of blocked tasks\<close>

lemma set_heappush [simp]: "set (heappush q x) = insert x (set q)"
  by (induction q) auto


lemma should_retry_task_queue [simp]: "should_retry (s\<lparr> task_queue := q \<rparr>) t = should_retry s t"
  by (simp add: should_retry_def)











end
